theory Spec2Isabelle
  imports Main
begin

section \<open>Data model\<close>

text \<open>
  The enumerations and the columns of the \<open>User\<close> and \<open>Profile\<close> tables, as the
  migrations declare them and as the services read and write them. The primary-key
  columns are both called \<open>id\<close> in the schema; they are \<open>id_User\<close> and \<open>id_Profile\<close>
  here. The bookkeeping columns \<open>createdAt\<close> and \<open>updatedAt\<close>, which no service
  reads or writes explicitly, are not part of the model. A timestamp is a number of
  milliseconds; a nullable column is an \<open>option\<close>.
\<close>

datatype Role = ADMIN | PARENT | NANNY

datatype AccountStatus = PENDING_PAYMENT | ACTIVE | SUSPENDED

datatype BackgroundStatus = PENDING | PASSED | FAILED

type_synonym timestamp = nat

record User =
  id_User :: string
  email :: string
  password :: string
  fullName :: string
  role :: Role
  accountStatus :: AccountStatus
  approvedAt :: "timestamp option"
  backgroundStatus :: BackgroundStatus

record Profile =
  id_Profile :: string
  bio :: "string option"
  location :: "string option"
  experience :: "int option"
  userId :: string
  isComplete :: bool

text \<open>The relational store: each table is the list of its rows.\<close>

record DB =
  User_table :: "User list"
  Profile_table :: "Profile list"

text \<open>
  The data-transfer objects. \<open>CreateUserProfileDto\<close> and \<open>UpdateUserProfileDto\<close>
  have the same three optional fields.
\<close>

record UserProfileDto =
  dto_bio :: "string option"
  dto_location :: "string option"
  dto_experience :: "int option"

record CreateUserDto =
  create_email :: string
  create_password :: string
  create_fullName :: string
  create_profile :: "UserProfileDto option"

record UpdateUserDto =
  update_fullName :: "string option"
  update_password :: "string option"
  update_profile :: "UserProfileDto option"

section \<open>Errors\<close>

text \<open>
  The three HTTP exceptions the services throw, each with its message, and the error
  of the database client, with its error code.
\<close>

datatype error =
    NotFoundException string
  | ConflictException string
  | InternalServerErrorException string
  | PrismaClientKnownRequestError string

text \<open>
  \<open>UsersService.rethrow\<close>: an error carrying the code \<open>P2002\<close> becomes a conflict,
  a \<open>NotFoundException\<close> or \<open>ConflictException\<close> is thrown again as it is, and
  everything else becomes an internal server error.
\<close>

fun rethrow :: "error \<Rightarrow> error" where
  "rethrow (PrismaClientKnownRequestError code) =
     (if code = ''P2002'' then ConflictException ''Email already in use''
      else InternalServerErrorException ''An unexpected error occurred'')"
| "rethrow (NotFoundException m) = NotFoundException m"
| "rethrow (ConflictException m) = ConflictException m"
| "rethrow (InternalServerErrorException m) =
     InternalServerErrorException ''An unexpected error occurred''"

section \<open>The database client\<close>

text \<open>
  The calls of the database client that the services use. A point lookup returns the
  row with the given key, or nothing.
\<close>

definition user_findUnique :: "string \<Rightarrow> DB \<Rightarrow> User option" where
  "user_findUnique uid db = find (\<lambda>u. id_User u = uid) (User_table db)"

definition profile_findUnique :: "string \<Rightarrow> DB \<Rightarrow> Profile option" where
  "profile_findUnique uid db = find (\<lambda>p. userId p = uid) (Profile_table db)"

text \<open>\<open>UPDATE "User" SET ... WHERE "id" = uid\<close>: every matching row is rewritten.\<close>

definition update_User_where :: "string \<Rightarrow> (User \<Rightarrow> User) \<Rightarrow> DB \<Rightarrow> DB" where
  "update_User_where uid f db =
     db\<lparr>User_table := map (\<lambda>u. if id_User u = uid then f u else u) (User_table db)\<rparr>"

text \<open>\<open>UPDATE "Profile" SET ... WHERE "userId" = uid\<close>.\<close>

definition update_Profile_where :: "string \<Rightarrow> (Profile \<Rightarrow> Profile) \<Rightarrow> DB \<Rightarrow> DB" where
  "update_Profile_where uid f db =
     db\<lparr>Profile_table := map (\<lambda>p. if userId p = uid then f p else p) (Profile_table db)\<rparr>"

text \<open>
  \<open>SELECT "approvedAt" FROM "User" WHERE "id" = uid\<close>: the selected column of the
  matching rows.
\<close>

definition select_approvedAt_where :: "string \<Rightarrow> DB \<Rightarrow> timestamp option list" where
  "select_approvedAt_where uid db =
     map approvedAt (filter (\<lambda>u. id_User u = uid) (User_table db))"

text \<open>
  The constraints of the \<open>Profile\<close> table: the primary key \<open>id\<close>, the unique index on
  \<open>userId\<close>, and the foreign key from \<open>userId\<close> to \<open>User.id\<close>.
\<close>

definition profile_violates :: "Profile \<Rightarrow> DB \<Rightarrow> bool" where
  "profile_violates p db \<longleftrightarrow>
     id_Profile p \<in> set (map id_Profile (Profile_table db))
     \<or> userId p \<in> set (map userId (Profile_table db))"

text \<open>
  \<open>INSERT INTO "Profile" ...\<close> as a raw statement: it fails with the client's
  raw-query error \<open>P2010\<close> when a constraint is violated.
\<close>

definition insert_Profile :: "Profile \<Rightarrow> DB \<Rightarrow> error + DB" where
  "insert_Profile p db =
     (if profile_violates p db \<or> userId p \<notin> set (map id_User (User_table db))
      then Inl (PrismaClientKnownRequestError ''P2010'')
      else Inr (db\<lparr>Profile_table := Profile_table db @ [p]\<rparr>))"

text \<open>
  \<open>prisma.user.update\<close> on the key \<open>uid\<close>: the client fails with \<open>P2025\<close> (record to
  update not found) when no row has that key, and otherwise returns the updated row.
\<close>

definition user_update :: "string \<Rightarrow> (User \<Rightarrow> User) \<Rightarrow> DB \<Rightarrow> (error + User) \<times> DB" where
  "user_update uid f db =
     (case user_findUnique uid db of
        None \<Rightarrow> (Inl (PrismaClientKnownRequestError ''P2025''), db)
      | Some u \<Rightarrow> (Inr (f u), update_User_where uid f db))"

text \<open>
  \<open>prisma.user.create\<close> with an optional nested profile: one transaction, which fails
  with \<open>P2002\<close> on a duplicate key (the user's \<open>id\<close> or \<open>email\<close>, the profile's \<open>id\<close> or
  \<open>userId\<close>) and then writes nothing.
\<close>

definition user_create :: "User \<Rightarrow> Profile option \<Rightarrow> DB \<Rightarrow> (error + User) \<times> DB" where
  "user_create u p db =
     (if id_User u \<in> set (map id_User (User_table db))
         \<or> email u \<in> set (map email (User_table db))
         \<or> (case p of None \<Rightarrow> False | Some q \<Rightarrow> profile_violates q db)
      then (Inl (PrismaClientKnownRequestError ''P2002''), db)
      else (Inr u,
            db\<lparr>User_table := User_table db @ [u],
               Profile_table := (case p of None \<Rightarrow> Profile_table db
                                 | Some q \<Rightarrow> Profile_table db @ [q])\<rparr>))"

text \<open>
  A field of an update that is \<open>undefined\<close> leaves the column as it is
  (\<open>data.fullName ?? undefined\<close>).
\<close>

definition or_keep :: "'a option \<Rightarrow> 'a \<Rightarrow> 'a" where
  "or_keep new old = (case new of None \<Rightarrow> old | Some v \<Rightarrow> v)"

definition or_keep_opt :: "'a option \<Rightarrow> 'a option \<Rightarrow> 'a option" where
  "or_keep_opt new old = (case new of None \<Rightarrow> old | Some v \<Rightarrow> Some v)"

section \<open>AdminService\<close>

text \<open>
  \<open>approveProfile\<close>. The two values the database computes, \<open>NOW()\<close> and
  \<open>gen_random_uuid()\<close>, are the parameters \<open>now\<close> and \<open>uuid\<close>. Each operation returns
  its result, or the error it throws, together with the store it leaves behind.
\<close>

definition approveProfile ::
  "timestamp \<Rightarrow> string \<Rightarrow> string \<Rightarrow> DB \<Rightarrow> (error + User option) \<times> DB" where
  "approveProfile now uuid uid db =
     (case user_findUnique uid db of
        None \<Rightarrow> (Inl (NotFoundException ''User not found''), db)
      | Some user \<Rightarrow>
          (case (case profile_findUnique uid db of
                   None \<Rightarrow>
                     insert_Profile
                       \<lparr>id_Profile = uuid, bio = None, location = None, experience = None,
                        userId = uid, isComplete = True\<rparr> db
                 | Some profile \<Rightarrow>
                     if \<not> isComplete profile
                     then Inr (update_Profile_where uid (\<lambda>p. p\<lparr>isComplete := True\<rparr>) db)
                     else Inr db) of
             Inl e \<Rightarrow> (Inl e, db)
           | Inr db1 \<Rightarrow>
               (let db2 = update_User_where uid (\<lambda>u. u\<lparr>approvedAt := Some now\<rparr>) db1
                in (Inr (user_findUnique uid db2), db2))))"

definition activateAfterPayment :: "string \<Rightarrow> DB \<Rightarrow> (error + User) \<times> DB" where
  "activateAfterPayment uid db = user_update uid (\<lambda>u. u\<lparr>accountStatus := ACTIVE\<rparr>) db"

section \<open>UsersService\<close>

text \<open>A \<open>try\<close> block whose \<open>catch\<close> calls \<open>rethrow\<close>.\<close>

definition try_rethrow :: "(error + 'a) \<times> DB \<Rightarrow> (error + 'a) \<times> DB" where
  "try_rethrow r = (case r of (Inl e, db) \<Rightarrow> (Inl (rethrow e), db) | (Inr v, db) \<Rightarrow> (Inr v, db))"

definition createUserWithRole ::
  "string \<Rightarrow> string \<Rightarrow> CreateUserDto \<Rightarrow> Role \<Rightarrow> DB \<Rightarrow> (error + User) \<times> DB" where
  "createUserWithRole newUserId newProfileId input r db =
     try_rethrow
       (user_create
          \<lparr>id_User = newUserId, email = create_email input, password = create_password input,
           fullName = create_fullName input, role = r, accountStatus = PENDING_PAYMENT,
           approvedAt = None, backgroundStatus = PENDING\<rparr>
          (case create_profile input of
             None \<Rightarrow> None
           | Some d \<Rightarrow>
               Some \<lparr>id_Profile = newProfileId, bio = dto_bio d, location = dto_location d,
                     experience = dto_experience d, userId = newUserId, isComplete = False\<rparr>)
          db)"

definition createParent ::
  "string \<Rightarrow> string \<Rightarrow> CreateUserDto \<Rightarrow> DB \<Rightarrow> (error + User) \<times> DB" where
  "createParent newUserId newProfileId input db =
     try_rethrow (createUserWithRole newUserId newProfileId input PARENT db)"

definition createNanny ::
  "string \<Rightarrow> string \<Rightarrow> CreateUserDto \<Rightarrow> DB \<Rightarrow> (error + User) \<times> DB" where
  "createNanny newUserId newProfileId input db =
     try_rethrow (createUserWithRole newUserId newProfileId input NANNY db)"

definition setBackgroundStatus ::
  "string \<Rightarrow> BackgroundStatus \<Rightarrow> DB \<Rightarrow> (error + User) \<times> DB" where
  "setBackgroundStatus uid status db =
     try_rethrow
       (let db1 = update_User_where uid (\<lambda>u. u\<lparr>backgroundStatus := status\<rparr>) db
        in case user_findUnique uid db1 of
             None \<Rightarrow> (Inl (NotFoundException ''User not found''), db1)
           | Some updated \<Rightarrow> (Inr updated, db1))"

text \<open>
  \<open>canAccessServices\<close>: the user is read with its profile, \<open>approvedAt\<close> is read by a
  second, raw query whose first row is taken (\<open>null\<close> when there is none), and only then
  is the missing user reported. \<open>Boolean\<close> of a date is true and of \<open>null\<close> false.
\<close>

definition canAccessServices :: "string \<Rightarrow> DB \<Rightarrow> (error + bool) \<times> DB" where
  "canAccessServices uid db =
     try_rethrow
       (let user = user_findUnique uid db;
            profile = profile_findUnique uid db;
            approved = (case select_approvedAt_where uid db of [] \<Rightarrow> None | a # _ \<Rightarrow> a)
        in case user of
             None \<Rightarrow> (Inl (NotFoundException ''User not found''), db)
           | Some u \<Rightarrow>
               (let isActive = (accountStatus u = ACTIVE);
                    hasCompleteProfile =
                      (case profile of None \<Rightarrow> False | Some p \<Rightarrow> isComplete p);
                    bgPassed = (backgroundStatus u = PASSED);
                    adminApproved = (approved \<noteq> None)
                in (Inr (isActive \<and> hasCompleteProfile \<and> bgPassed \<and> adminApproved), db)))"

text \<open>
  \<open>updateUser\<close>: the nested \<open>upsert\<close> updates the user's profile when there is one and
  creates it otherwise, in the same transaction as the update of the user. The result
  is the user with its profile.
\<close>

definition upsert_profile :: "string \<Rightarrow> string \<Rightarrow> UserProfileDto \<Rightarrow> DB \<Rightarrow> error + DB" where
  "upsert_profile newProfileId uid d db =
     (case profile_findUnique uid db of
        Some _ \<Rightarrow>
          Inr (update_Profile_where uid
                 (\<lambda>p. p\<lparr>bio := or_keep_opt (dto_bio d) (bio p),
                         location := or_keep_opt (dto_location d) (location p),
                         experience := or_keep_opt (dto_experience d) (experience p)\<rparr>) db)
      | None \<Rightarrow>
          (let p = \<lparr>id_Profile = newProfileId, bio = dto_bio d, location = dto_location d,
                    experience = dto_experience d, userId = uid, isComplete = False\<rparr>
           in if profile_violates p db then Inl (PrismaClientKnownRequestError ''P2002'')
              else Inr (db\<lparr>Profile_table := Profile_table db @ [p]\<rparr>)))"

definition updateUser ::
  "string \<Rightarrow> string \<Rightarrow> UpdateUserDto \<Rightarrow> DB \<Rightarrow> (error + User \<times> Profile option) \<times> DB" where
  "updateUser newProfileId uid data db =
     try_rethrow
       (case user_findUnique uid db of
          None \<Rightarrow> (Inl (NotFoundException ''User not found''), db)
        | Some existing \<Rightarrow>
            (case user_update uid
                    (\<lambda>u. u\<lparr>fullName := or_keep (update_fullName data) (fullName u),
                            password := or_keep (update_password data) (password u)\<rparr>) db of
               (Inl e, _) \<Rightarrow> (Inl e, db)
             | (Inr u', db1) \<Rightarrow>
                 (case (case update_profile data of
                          None \<Rightarrow> Inr db1
                        | Some d \<Rightarrow> upsert_profile newProfileId uid d db1) of
                    Inl e \<Rightarrow> (Inl e, db)
                  | Inr db2 \<Rightarrow> (Inr (u', profile_findUnique uid db2), db2))))"

definition setAccountActive :: "string \<Rightarrow> DB \<Rightarrow> (error + User) \<times> DB" where
  "setAccountActive uid db =
     try_rethrow (user_update uid (\<lambda>u. u\<lparr>accountStatus := ACTIVE\<rparr>) db)"

definition suspend :: "string \<Rightarrow> DB \<Rightarrow> (error + User) \<times> DB" where
  "suspend uid db =
     try_rethrow (user_update uid (\<lambda>u. u\<lparr>accountStatus := SUSPENDED\<rparr>) db)"

text \<open>\<open>getById\<close>: the user with its profile; a read.\<close>

definition getById :: "string \<Rightarrow> DB \<Rightarrow> (error + User \<times> Profile option) \<times> DB" where
  "getById uid db =
     try_rethrow
       (case user_findUnique uid db of
          None \<Rightarrow> (Inl (NotFoundException ''User not found''), db)
        | Some user \<Rightarrow> (Inr (user, profile_findUnique uid db), db))"

section \<open>Operations as data\<close>

text \<open>
  The operations of the two services that the model covers, with their arguments and the
  values that the database or the client generates for them (timestamps and fresh
  identifiers). \<open>run\<close> is the store an operation leaves behind, whether it returns or
  throws. The two listing queries \<open>listParents\<close> and \<open>listNannies\<close> only read and
  are left out.
\<close>

datatype operation =
    ApproveProfile timestamp string string
  | ActivateAfterPayment string
  | CreateParent string string CreateUserDto
  | CreateNanny string string CreateUserDto
  | SetBackgroundStatus string BackgroundStatus
  | CanAccessServices string
  | GetById string
  | UpdateUser string string UpdateUserDto
  | SetAccountActive string
  | Suspend string

fun run :: "operation \<Rightarrow> DB \<Rightarrow> DB" where
  "run (ApproveProfile now uuid uid) db = snd (approveProfile now uuid uid db)"
| "run (ActivateAfterPayment uid) db = snd (activateAfterPayment uid db)"
| "run (CreateParent newUserId newProfileId input) db =
     snd (createParent newUserId newProfileId input db)"
| "run (CreateNanny newUserId newProfileId input) db =
     snd (createNanny newUserId newProfileId input db)"
| "run (SetBackgroundStatus uid status) db = snd (setBackgroundStatus uid status db)"
| "run (CanAccessServices uid) db = snd (canAccessServices uid db)"
| "run (GetById uid) db = snd (getById uid db)"
| "run (UpdateUser newProfileId uid data) db = snd (updateUser newProfileId uid data db)"
| "run (SetAccountActive uid) db = snd (setAccountActive uid db)"
| "run (Suspend uid) db = snd (suspend uid db)"

fun is_approveProfile :: "operation \<Rightarrow> bool" where
  "is_approveProfile (ApproveProfile _ _ _) = True"
| "is_approveProfile _ = False"

text \<open>
  Two relations between the store before and after an operation, per user identifier:
  a user that was there is still there with the same \<open>approvedAt\<close>, and a user that is
  new has none; a profile that was there is still there with the same \<open>isComplete\<close>,
  and a profile that is new is not complete.
\<close>

definition keeps_approvedAt :: "DB \<Rightarrow> DB \<Rightarrow> bool" where
  "keeps_approvedAt db db' \<longleftrightarrow>
     (\<forall>uid. (\<forall>u. user_findUnique uid db = Some u \<longrightarrow>
                 (\<exists>u'. user_findUnique uid db' = Some u' \<and> approvedAt u' = approvedAt u))
          \<and> (user_findUnique uid db = None \<longrightarrow>
                 (\<forall>u'. user_findUnique uid db' = Some u' \<longrightarrow> approvedAt u' = None)))"

definition keeps_isComplete :: "DB \<Rightarrow> DB \<Rightarrow> bool" where
  "keeps_isComplete db db' \<longleftrightarrow>
     (\<forall>uid. (\<forall>p. profile_findUnique uid db = Some p \<longrightarrow>
                 (\<exists>p'. profile_findUnique uid db' = Some p' \<and> isComplete p' = isComplete p))
          \<and> (profile_findUnique uid db = None \<longrightarrow>
                 (\<forall>p'. profile_findUnique uid db' = Some p' \<longrightarrow> \<not> isComplete p')))"

section \<open>Example stores\<close>

text \<open>
  A store with two users: \<open>pat\<close> has just signed up and has no profile, \<open>nina\<close> has
  paid, passed the background check and been approved.
\<close>

definition pat :: User where
  "pat = \<lparr>id_User = ''u1'', email = ''pat@example.com'', password = ''hash'',
          fullName = ''Pat Parent'', role = PARENT, accountStatus = PENDING_PAYMENT,
          approvedAt = None, backgroundStatus = PENDING\<rparr>"

definition nina :: User where
  "nina = \<lparr>id_User = ''u2'', email = ''nina@example.com'', password = ''hash'',
           fullName = ''Nina Nanny'', role = NANNY, accountStatus = ACTIVE,
           approvedAt = Some 1000, backgroundStatus = PASSED\<rparr>"

definition nina_profile :: Profile where
  "nina_profile = \<lparr>id_Profile = ''p2'', bio = Some ''Five years of care'', location = None,
                   experience = Some 5, userId = ''u2'', isComplete = True\<rparr>"

definition db_example :: DB where
  "db_example = \<lparr>User_table = [pat, nina], Profile_table = [nina_profile]\<rparr>"

definition bio_update :: UpdateUserDto where
  "bio_update = \<lparr>update_fullName = None, update_password = None,
                 update_profile = Some \<lparr>dto_bio = Some ''Ten years of care'',
                                        dto_location = None, dto_experience = None\<rparr>\<rparr>"

definition sam_input :: CreateUserDto where
  "sam_input = \<lparr>create_email = ''sam@example.com'', create_password = ''hash'',
                create_fullName = ''Sam Parent'',
                create_profile = Some \<lparr>dto_bio = None, dto_location = Some ''Nairobi'',
                                       dto_experience = None\<rparr>\<rparr>"

lemmas model_defs =
  user_findUnique_def profile_findUnique_def update_User_where_def update_Profile_where_def
  select_approvedAt_where_def profile_violates_def insert_Profile_def user_update_def
  user_create_def or_keep_def or_keep_opt_def try_rethrow_def

lemmas example_defs = pat_def nina_def nina_profile_def db_example_def

lemmas service_defs =
  approveProfile_def activateAfterPayment_def createUserWithRole_def createParent_def
  createNanny_def setBackgroundStatus_def canAccessServices_def upsert_profile_def
  updateUser_def setAccountActive_def suspend_def getById_def Let_def

section \<open>Lookups after writes\<close>

lemma find_map_key:
  assumes "\<And>u. k (f u) = k u"
  shows "find (\<lambda>u. k u = a) (map (\<lambda>u. if k u = b then f u else u) xs) =
         map_option (\<lambda>u. if k u = b then f u else u) (find (\<lambda>u. k u = a) xs)"
  by (induction xs) (auto simp: assms)

lemma user_find_update_User:
  assumes "\<And>u. id_User (f u) = id_User u"
  shows "user_findUnique a (update_User_where b f db) =
         map_option (\<lambda>u. if id_User u = b then f u else u) (user_findUnique a db)"
  unfolding user_findUnique_def update_User_where_def
  using find_map_key [of id_User f a b "User_table db"] assms by simp

lemma profile_find_update_Profile:
  assumes "\<And>p. userId (f p) = userId p"
  shows "profile_findUnique a (update_Profile_where b f db) =
         map_option (\<lambda>p. if userId p = b then f p else p) (profile_findUnique a db)"
  unfolding profile_findUnique_def update_Profile_where_def
  using find_map_key [of userId f a b "Profile_table db"] assms by simp

lemma profile_find_update_User [simp]:
  "profile_findUnique a (update_User_where b f db) = profile_findUnique a db"
  by (simp add: profile_findUnique_def update_User_where_def)

lemma user_find_update_Profile [simp]:
  "user_findUnique a (update_Profile_where b f db) = user_findUnique a db"
  by (simp add: user_findUnique_def update_Profile_where_def)

lemma user_findUnique_id: "user_findUnique uid db = Some u \<Longrightarrow> id_User u = uid"
  by (auto simp: user_findUnique_def find_Some_iff)

lemma profile_findUnique_userId: "profile_findUnique uid db = Some p \<Longrightarrow> userId p = uid"
  by (auto simp: profile_findUnique_def find_Some_iff)

lemma user_find_update_same:
  assumes "\<And>u. id_User (f u) = id_User u" and "user_findUnique uid db = Some u"
  shows "user_findUnique uid (update_User_where uid f db) = Some (f u)"
  using assms user_findUnique_id [OF assms(2)] by (simp add: user_find_update_User)

lemma profile_find_update_same:
  assumes "\<And>p. userId (f p) = userId p" and "profile_findUnique uid db = Some p"
  shows "profile_findUnique uid (update_Profile_where uid f db) = Some (f p)"
  using assms profile_findUnique_userId [OF assms(2)] by (simp add: profile_find_update_Profile)

lemma first_row_find:
  "(case map g (filter P xs) of [] \<Rightarrow> None | a # _ \<Rightarrow> a) =
     (case find P xs of None \<Rightarrow> None | Some u \<Rightarrow> g u)"
  by (induction xs) auto

lemma first_approvedAt:
  "(case select_approvedAt_where uid db of [] \<Rightarrow> None | a # _ \<Rightarrow> a) =
     (case user_findUnique uid db of None \<Rightarrow> None | Some u \<Rightarrow> approvedAt u)"
  unfolding select_approvedAt_where_def user_findUnique_def
  by (rule first_row_find)

lemma find_snoc:
  "find P (xs @ [y]) = (case find P xs of None \<Rightarrow> (if P y then Some y else None) | Some x \<Rightarrow> Some x)"
  by (induction xs) auto

lemma profile_find_snoc:
  "profile_findUnique uid (db\<lparr>Profile_table := Profile_table db @ [p]\<rparr>) =
     (case profile_findUnique uid db of
        None \<Rightarrow> if userId p = uid then Some p else None
      | Some q \<Rightarrow> Some q)"
  by (simp add: profile_findUnique_def find_snoc)

lemma user_find_Profile_table [simp]:
  "user_findUnique uid (db\<lparr>Profile_table := ps\<rparr>) = user_findUnique uid db"
  by (simp add: user_findUnique_def)

lemma user_find_snoc:
  "user_findUnique uid (db\<lparr>User_table := User_table db @ [v]\<rparr>) =
     (case user_findUnique uid db of
        None \<Rightarrow> if id_User v = uid then Some v else None
      | Some u \<Rightarrow> Some u)"
  by (simp add: user_findUnique_def find_snoc)

lemma user_find_mem: "user_findUnique uid db = Some u \<Longrightarrow> uid \<in> id_User ` set (User_table db)"
  by (auto simp: user_findUnique_def find_Some_iff)

lemma profile_find_None: "profile_findUnique uid db = None \<Longrightarrow> uid \<notin> userId ` set (Profile_table db)"
  by (auto simp: profile_findUnique_def find_None_iff)

lemma Profile_table_update_User [simp]:
  "Profile_table (update_User_where uid f db) = Profile_table db"
  by (simp add: update_User_where_def)

lemma User_table_update_Profile [simp]:
  "User_table (update_Profile_where uid f db) = User_table db"
  by (simp add: update_Profile_where_def)

lemma update_User_where_twice:
  assumes "\<And>u. id_User (f u) = id_User u"
  shows "update_User_where uid g (update_User_where uid f db) = update_User_where uid (\<lambda>u. g (f u)) db"
  by (simp add: update_User_where_def assms)

lemma activateAfterPayment_Some:
  "user_findUnique uid db = Some u \<Longrightarrow>
     activateAfterPayment uid db =
       (Inr (u\<lparr>accountStatus := ACTIVE\<rparr>),
        update_User_where uid (\<lambda>u. u\<lparr>accountStatus := ACTIVE\<rparr>) db)"
  by (simp add: activateAfterPayment_def user_update_def)

lemma setBackgroundStatus_Some:
  "user_findUnique uid db = Some u \<Longrightarrow>
     setBackgroundStatus uid status db =
       (Inr (u\<lparr>backgroundStatus := status\<rparr>),
        update_User_where uid (\<lambda>u. u\<lparr>backgroundStatus := status\<rparr>) db)"
  by (simp add: setBackgroundStatus_def try_rethrow_def Let_def user_find_update_same)

section \<open>What each operation returns for an existing user\<close>

lemma canAccessServices_Some:
  "user_findUnique uid db = Some u \<Longrightarrow>
     canAccessServices uid db =
       (Inr (accountStatus u = ACTIVE
             \<and> (\<exists>p. profile_findUnique uid db = Some p \<and> isComplete p)
             \<and> backgroundStatus u = PASSED
             \<and> approvedAt u \<noteq> None), db)"
  by (auto simp: canAccessServices_def try_rethrow_def first_approvedAt Let_def
           split: option.splits)

text \<open>
  \<open>approveProfile\<close> on an existing user: the profile step inserts a complete profile,
  completes the one that is there, or does nothing; then the approval timestamp is
  written. The generated identifier has to be new when a profile is inserted.
\<close>

lemma approveProfile_Some:
  assumes u: "user_findUnique uid db = Some u"
    and fresh: "profile_findUnique uid db = None \<Longrightarrow> uuid \<notin> id_Profile ` set (Profile_table db)"
  shows "approveProfile now uuid uid db =
    (Inr (Some (u\<lparr>approvedAt := Some now\<rparr>)),
     update_User_where uid (\<lambda>u. u\<lparr>approvedAt := Some now\<rparr>)
       (case profile_findUnique uid db of
          None \<Rightarrow> db\<lparr>Profile_table := Profile_table db @
                     [\<lparr>id_Profile = uuid, bio = None, location = None, experience = None,
                       userId = uid, isComplete = True\<rparr>]\<rparr>
        | Some p \<Rightarrow> if isComplete p then db
                    else update_Profile_where uid (\<lambda>p. p\<lparr>isComplete := True\<rparr>) db))"
proof (cases "profile_findUnique uid db")
  case None
  have "insert_Profile \<lparr>id_Profile = uuid, bio = None, location = None, experience = None,
                        userId = uid, isComplete = True\<rparr> db =
        Inr (db\<lparr>Profile_table := Profile_table db @
                     [\<lparr>id_Profile = uuid, bio = None, location = None, experience = None,
                       userId = uid, isComplete = True\<rparr>]\<rparr>)"
    using fresh [OF None] user_find_mem [OF u] profile_find_None [OF None]
    by (simp add: insert_Profile_def profile_violates_def)
  then show ?thesis using u None
    by (simp add: approveProfile_def Let_def user_find_update_same)
next
  case (Some p)
  then show ?thesis using u
    by (simp add: approveProfile_def Let_def user_find_update_same)
qed

section \<open>What each operation preserves\<close>

lemma keeps_approvedAt_refl [simp]: "keeps_approvedAt db db"
  by (simp add: keeps_approvedAt_def)

lemma keeps_isComplete_refl [simp]: "keeps_isComplete db db"
  by (simp add: keeps_isComplete_def)

lemma keeps_approvedAt_cong:
  "(\<And>uid. user_findUnique uid db2 = user_findUnique uid db1) \<Longrightarrow>
     keeps_approvedAt db db2 = keeps_approvedAt db db1"
  by (simp add: keeps_approvedAt_def)

lemma keeps_isComplete_cong:
  "(\<And>uid. profile_findUnique uid db2 = profile_findUnique uid db1) \<Longrightarrow>
     keeps_isComplete db db2 = keeps_isComplete db db1"
  by (simp add: keeps_isComplete_def)

lemma keeps_approvedAt_update:
  assumes "\<And>u. id_User (f u) = id_User u" "\<And>u. approvedAt (f u) = approvedAt u"
  shows "keeps_approvedAt db (update_User_where k f db)"
  by (auto simp: keeps_approvedAt_def user_find_update_User assms)

lemma keeps_isComplete_update:
  assumes "\<And>p. userId (f p) = userId p" "\<And>p. isComplete (f p) = isComplete p"
  shows "keeps_isComplete db (update_Profile_where k f db)"
  by (auto simp: keeps_isComplete_def profile_find_update_Profile assms)

lemma keeps_approvedAt_snoc:
  "approvedAt v = None \<Longrightarrow> keeps_approvedAt db (db\<lparr>User_table := User_table db @ [v]\<rparr>)"
  by (auto simp: keeps_approvedAt_def user_find_snoc)

lemma keeps_isComplete_snoc:
  "\<not> isComplete q \<Longrightarrow> keeps_isComplete db (db\<lparr>Profile_table := Profile_table db @ [q]\<rparr>)"
  by (auto simp: keeps_isComplete_def profile_find_snoc)

lemma snd_try_rethrow [simp]: "snd (try_rethrow r) = snd r"
  by (simp add: try_rethrow_def split: prod.splits sum.splits)

lemma user_update_keeps:
  assumes "\<And>u. id_User (f u) = id_User u" "\<And>u. approvedAt (f u) = approvedAt u"
  shows "keeps_approvedAt db (snd (user_update uid f db))"
    and "keeps_isComplete db (snd (user_update uid f db))"
  using keeps_approvedAt_update [of f db uid] assms
  by (simp_all add: user_update_def keeps_isComplete_cong [of "update_User_where uid f db" db]
        split: option.splits)

lemma user_create_keeps:
  assumes "approvedAt u = None" "\<And>q. p = Some q \<Longrightarrow> \<not> isComplete q"
  shows "keeps_approvedAt db (snd (user_create u p db))"
    and "keeps_isComplete db (snd (user_create u p db))"
  using assms
  by (auto simp: user_create_def keeps_approvedAt_def keeps_isComplete_def
        user_findUnique_def profile_findUnique_def find_snoc split: option.splits)

lemma createUserWithRole_keeps:
  "keeps_approvedAt db (snd (createUserWithRole nu np input r db))"
  "keeps_isComplete db (snd (createUserWithRole nu np input r db))"
  by (auto simp: createUserWithRole_def intro!: user_create_keeps split: option.splits)

lemma upsert_profile_keeps:
  "upsert_profile np uid d db = Inr db' \<Longrightarrow> keeps_isComplete db db'"
  "upsert_profile np uid d db = Inr db' \<Longrightarrow> User_table db' = User_table db"
  by (auto simp: upsert_profile_def Let_def keeps_isComplete_update keeps_isComplete_snoc
        split: option.splits if_splits)

lemma keeps_isComplete_trans:
  assumes ab: "keeps_isComplete a b" and bc: "keeps_isComplete b c"
  shows "keeps_isComplete a c"
  unfolding keeps_isComplete_def
proof (intro allI conjI impI)
  fix uid p
  assume "profile_findUnique uid a = Some p"
  with ab obtain p' where "profile_findUnique uid b = Some p'" "isComplete p' = isComplete p"
    unfolding keeps_isComplete_def by blast
  with bc show "\<exists>p''. profile_findUnique uid c = Some p'' \<and> isComplete p'' = isComplete p"
    unfolding keeps_isComplete_def by fastforce
next
  fix uid p''
  assume n: "profile_findUnique uid a = None" and c: "profile_findUnique uid c = Some p''"
  show "\<not> isComplete p''"
  proof (cases "profile_findUnique uid b")
    case None
    with bc c show ?thesis unfolding keeps_isComplete_def by blast
  next
    case (Some p')
    with ab n have "\<not> isComplete p'" unfolding keeps_isComplete_def by blast
    moreover from bc Some c have "isComplete p'' = isComplete p'"
      unfolding keeps_isComplete_def by fastforce
    ultimately show ?thesis by simp
  qed
qed

lemma user_find_User_table_eq:
  "User_table db' = User_table db \<Longrightarrow> user_findUnique uid db' = user_findUnique uid db"
  by (simp add: user_findUnique_def)

lemma updateUser_keeps:
  "keeps_approvedAt db (snd (updateUser np uid data db))"
  "keeps_isComplete db (snd (updateUser np uid data db))"
proof -
  let ?f = "\<lambda>u. u\<lparr>fullName := or_keep (update_fullName data) (fullName u),
                   password := or_keep (update_password data) (password u)\<rparr>"
  let ?db1 = "update_User_where uid ?f db"
  have a1: "keeps_approvedAt db ?db1"
    by (simp add: keeps_approvedAt_update)
  have c1: "keeps_isComplete db ?db1"
    by (simp add: keeps_isComplete_cong [of ?db1 db])
  have "keeps_approvedAt db (snd (updateUser np uid data db))
        \<and> keeps_isComplete db (snd (updateUser np uid data db))"
  proof (cases "user_findUnique uid db")
    case None
    then show ?thesis by (simp add: updateUser_def)
  next
    case (Some existing)
    show ?thesis
    proof (cases "update_profile data")
      case None
      with Some a1 c1 show ?thesis by (simp add: updateUser_def user_update_def)
    next
      case d: (Some d)
      show ?thesis
      proof (cases "upsert_profile np uid d ?db1")
        case (Inl e)
        with Some d show ?thesis by (simp add: updateUser_def user_update_def)
      next
        case (Inr db2)
        have s: "snd (updateUser np uid data db) = db2"
          using Some d Inr by (simp add: updateUser_def user_update_def)
        have "keeps_approvedAt db db2"
          using a1 keeps_approvedAt_cong [of db2 ?db1 db]
            user_find_User_table_eq [OF upsert_profile_keeps(2) [OF Inr]] by simp
        moreover have "keeps_isComplete db db2"
          using keeps_isComplete_trans [OF c1 upsert_profile_keeps(1) [OF Inr]] .
        ultimately show ?thesis using s by simp
      qed
    qed
  qed
  then show "keeps_approvedAt db (snd (updateUser np uid data db))"
    and "keeps_isComplete db (snd (updateUser np uid data db))" by simp_all
qed

lemma setBackgroundStatus_keeps:
  "keeps_approvedAt db (snd (setBackgroundStatus uid status db))"
  "keeps_isComplete db (snd (setBackgroundStatus uid status db))"
  by (simp_all add: setBackgroundStatus_def Let_def keeps_approvedAt_update
        keeps_isComplete_cong [of "update_User_where uid f db" db for f]
        split: option.splits)

lemma read_only [simp]:
  "snd (canAccessServices uid db) = db" "snd (getById uid db) = db"
  by (simp_all add: canAccessServices_def getById_def Let_def split: option.splits)

lemma run_keeps:
  assumes "\<not> is_approveProfile op"
  shows "keeps_approvedAt db (run op db)" and "keeps_isComplete db (run op db)"
proof -
  have "keeps_approvedAt db (run op db) \<and> keeps_isComplete db (run op db)"
  proof (cases op)
    case (ApproveProfile now uuid uid)
    with assms show ?thesis by simp
  next
    case (ActivateAfterPayment uid)
    then show ?thesis by (simp add: activateAfterPayment_def user_update_keeps)
  next
    case (CreateParent nu np input)
    then show ?thesis by (simp add: createParent_def createUserWithRole_keeps)
  next
    case (CreateNanny nu np input)
    then show ?thesis by (simp add: createNanny_def createUserWithRole_keeps)
  next
    case (SetBackgroundStatus uid status)
    then show ?thesis by (simp add: setBackgroundStatus_keeps)
  next
    case (CanAccessServices uid)
    then show ?thesis by simp
  next
    case (GetById uid)
    then show ?thesis by simp
  next
    case (UpdateUser np uid data)
    then show ?thesis by (simp add: updateUser_keeps)
  next
    case (SetAccountActive uid)
    then show ?thesis by (simp add: setAccountActive_def user_update_keeps)
  next
    case (Suspend uid)
    then show ?thesis by (simp add: suspend_def user_update_keeps)
  qed
  then show "keeps_approvedAt db (run op db)" and "keeps_isComplete db (run op db)"
    by simp_all
qed

lemma approveProfile_approvedAt:
  assumes "user_findUnique k db = Some v" "approvedAt v \<noteq> None"
  shows "\<exists>v'. user_findUnique k (snd (approveProfile now uuid uid db)) = Some v'
              \<and> approvedAt v' \<noteq> None"
  using assms
  by (auto simp: approveProfile_def Let_def insert_Profile_def user_find_update_User
        split: option.splits sum.splits if_splits)

section \<open>The claims\<close>

text \<open>
  Claim C1. For an existing user, \<open>canAccessServices\<close> returns true exactly when the
  account status is \<open>ACTIVE\<close>, a profile exists and is complete, the background status
  is \<open>PASSED\<close> and \<open>approvedAt\<close> is not null, and it leaves the store as it is; with
  \<open>approvedAt\<close> null it returns false whatever the other fields are.
\<close>

theorem canAccessServices_gate:
  "user_findUnique uid db = Some u \<Longrightarrow>
     canAccessServices uid db =
       (Inr (accountStatus u = ACTIVE
             \<and> (\<exists>p. profile_findUnique uid db = Some p \<and> isComplete p)
             \<and> backgroundStatus u = PASSED
             \<and> approvedAt u \<noteq> None), db)
     \<and> (approvedAt u = None \<longrightarrow> canAccessServices uid db = (Inr False, db))"
  by (simp add: canAccessServices_Some)

theorem canAccessServices_gate_witness:
  "user_findUnique ''u2'' db_example = Some nina
   \<and> canAccessServices ''u2'' db_example = (Inr True, db_example)
   \<and> user_findUnique ''u1'' db_example = Some pat \<and> approvedAt pat = None
   \<and> canAccessServices ''u1'' db_example = (Inr False, db_example)"
proof -
  have n: "user_findUnique ''u2'' db_example = Some nina"
    by (simp add: model_defs example_defs)
  have p: "user_findUnique ''u1'' db_example = Some pat"
    by (simp add: model_defs example_defs)
  have a: "approvedAt pat = None" by (simp add: pat_def)
  have np: "profile_findUnique ''u2'' db_example = Some nina_profile"
    by (simp add: model_defs example_defs)
  from canAccessServices_gate [OF n] np
  have "canAccessServices ''u2'' db_example = (Inr True, db_example)"
    by (simp add: nina_def nina_profile_def)
  moreover from canAccessServices_gate [OF p] a
  have "canAccessServices ''u1'' db_example = (Inr False, db_example)" by simp
  ultimately show ?thesis using n p a by simp
qed

text \<open>
  Claim C2, as stated, fails: the second call writes \<open>NOW()\<close> again, so after two calls
  at different times \<open>approvedAt\<close> is the time of the second call, not of the first, and
  a call on the already approved \<open>nina\<close> changes the store.
\<close>

theorem approveProfile_twice_counterexample:
  "map_option approvedAt
     (user_findUnique ''u1'' (snd (approveProfile 1000 ''p9'' ''u1'' db_example)))
     = Some (Some 1000)
   \<and> map_option approvedAt
     (user_findUnique ''u1''
        (snd (approveProfile 2000 ''p8'' ''u1'' (snd (approveProfile 1000 ''p9'' ''u1'' db_example)))))
     = Some (Some 2000)
   \<and> snd (approveProfile 2000 ''p8'' ''u1'' (snd (approveProfile 1000 ''p9'' ''u1'' db_example)))
     \<noteq> snd (approveProfile 1000 ''p9'' ''u1'' db_example)
   \<and> map_option approvedAt (user_findUnique ''u2'' db_example) = Some (Some 1000)
   \<and> snd (approveProfile 2000 ''p8'' ''u2'' db_example) \<noteq> db_example"
  by (simp add: service_defs model_defs example_defs)

text \<open>
  Claim C2, amended. For an existing user, both calls of \<open>approveProfile\<close> succeed; the
  second call leaves the \<open>Profile\<close> table as the first left it and changes nothing in
  the \<open>User\<close> table but the \<open>approvedAt\<close> of that user, which becomes the time of the
  second call. The store after the two calls is the store after a single call made at
  the time of the second, and it is the store after the first call when both calls read
  the same time. A call on a user whose profile is already complete changes nothing
  but the \<open>approvedAt\<close> of that user.
\<close>

theorem approveProfile_twice:
  assumes u: "user_findUnique uid db = Some u"
    and fresh: "profile_findUnique uid db = None \<Longrightarrow> uuid1 \<notin> id_Profile ` set (Profile_table db)"
  shows "fst (approveProfile t1 uuid1 uid db) = Inr (Some (u\<lparr>approvedAt := Some t1\<rparr>))
     \<and> fst (approveProfile t2 uuid2 uid (snd (approveProfile t1 uuid1 uid db)))
         = Inr (Some (u\<lparr>approvedAt := Some t2\<rparr>))
     \<and> Profile_table (snd (approveProfile t2 uuid2 uid (snd (approveProfile t1 uuid1 uid db))))
         = Profile_table (snd (approveProfile t1 uuid1 uid db))
     \<and> User_table (snd (approveProfile t2 uuid2 uid (snd (approveProfile t1 uuid1 uid db))))
         = map (\<lambda>v. if id_User v = uid then v\<lparr>approvedAt := Some t2\<rparr> else v)
             (User_table (snd (approveProfile t1 uuid1 uid db)))
     \<and> snd (approveProfile t2 uuid2 uid (snd (approveProfile t1 uuid1 uid db)))
         = snd (approveProfile t2 uuid1 uid db)
     \<and> (t2 = t1 \<longrightarrow>
          snd (approveProfile t2 uuid2 uid (snd (approveProfile t1 uuid1 uid db)))
            = snd (approveProfile t1 uuid1 uid db))
     \<and> (\<forall>p. profile_findUnique uid db = Some p \<and> isComplete p \<longrightarrow>
          Profile_table (snd (approveProfile t1 uuid1 uid db)) = Profile_table db
          \<and> User_table (snd (approveProfile t1 uuid1 uid db))
              = map (\<lambda>v. if id_User v = uid then v\<lparr>approvedAt := Some t1\<rparr> else v)
                  (User_table db))"
proof -
  let ?a = "\<lambda>t (v::User). v\<lparr>approvedAt := Some t\<rparr>"
  define X where "X = (case profile_findUnique uid db of
          None \<Rightarrow> db\<lparr>Profile_table := Profile_table db @
                     [\<lparr>id_Profile = uuid1, bio = None, location = None, experience = None,
                       userId = uid, isComplete = True\<rparr>]\<rparr>
        | Some p \<Rightarrow> if isComplete p then db
                    else update_Profile_where uid (\<lambda>p. p\<lparr>isComplete := True\<rparr>) db)"
  have first: "approveProfile t uuid1 uid db = (Inr (Some (?a t u)), update_User_where uid (?a t) X)" for t
    unfolding X_def by (rule approveProfile_Some [OF u fresh])
  let ?db1 = "update_User_where uid (?a t1) X"
  have uX: "user_findUnique uid X = Some u"
    using u by (simp add: X_def split: option.splits)
  have u1: "user_findUnique uid ?db1 = Some (?a t1 u)"
    using uX by (simp add: user_find_update_same)
  have pX: "\<exists>p. profile_findUnique uid X = Some p \<and> isComplete p"
    by (cases "profile_findUnique uid db")
       (simp_all add: X_def profile_find_snoc profile_find_update_same)
  then obtain p where p: "profile_findUnique uid ?db1 = Some p" "isComplete p"
    by auto
  have f1: "profile_findUnique uid ?db1 = None \<Longrightarrow> uuid2 \<notin> id_Profile ` set (Profile_table ?db1)"
    using p by simp
  have second: "approveProfile t2 uuid2 uid ?db1 =
      (Inr (Some (?a t2 u)), update_User_where uid (?a t2) ?db1)"
    using approveProfile_Some [OF u1 f1, of t2] p by simp
  have collapse: "update_User_where uid (?a t2) ?db1 = update_User_where uid (?a t2) X"
    by (simp add: update_User_where_twice)
  have again: "\<forall>p. profile_findUnique uid db = Some p \<and> isComplete p \<longrightarrow>
          Profile_table (snd (approveProfile t1 uuid1 uid db)) = Profile_table db
          \<and> User_table (snd (approveProfile t1 uuid1 uid db))
              = map (\<lambda>v. if id_User v = uid then v\<lparr>approvedAt := Some t1\<rparr> else v)
                  (User_table db)"
    unfolding first snd_conv by (simp add: X_def update_User_where_def)
  have "fst (approveProfile t1 uuid1 uid db) = Inr (Some (u\<lparr>approvedAt := Some t1\<rparr>))
     \<and> fst (approveProfile t2 uuid2 uid (snd (approveProfile t1 uuid1 uid db)))
         = Inr (Some (u\<lparr>approvedAt := Some t2\<rparr>))
     \<and> Profile_table (snd (approveProfile t2 uuid2 uid (snd (approveProfile t1 uuid1 uid db))))
         = Profile_table (snd (approveProfile t1 uuid1 uid db))
     \<and> User_table (snd (approveProfile t2 uuid2 uid (snd (approveProfile t1 uuid1 uid db))))
         = map (\<lambda>v. if id_User v = uid then v\<lparr>approvedAt := Some t2\<rparr> else v)
             (User_table (snd (approveProfile t1 uuid1 uid db)))
     \<and> snd (approveProfile t2 uuid2 uid (snd (approveProfile t1 uuid1 uid db)))
         = snd (approveProfile t2 uuid1 uid db)
     \<and> (t2 = t1 \<longrightarrow>
          snd (approveProfile t2 uuid2 uid (snd (approveProfile t1 uuid1 uid db)))
            = snd (approveProfile t1 uuid1 uid db))"
    unfolding first second fst_conv snd_conv collapse
    by (simp add: update_User_where_def)
  with again show ?thesis by blast
qed

theorem approveProfile_twice_witness:
  "user_findUnique ''u1'' db_example = Some pat
   \<and> ''p9'' \<notin> id_Profile ` set (Profile_table db_example)
   \<and> fst (approveProfile 2000 ''p8'' ''u1'' (snd (approveProfile 1000 ''p9'' ''u1'' db_example)))
       = Inr (Some (pat\<lparr>approvedAt := Some 2000\<rparr>))
   \<and> snd (approveProfile 2000 ''p8'' ''u1'' (snd (approveProfile 1000 ''p9'' ''u1'' db_example)))
       = snd (approveProfile 2000 ''p9'' ''u1'' db_example)
   \<and> snd (approveProfile 1000 ''p8'' ''u1'' (snd (approveProfile 1000 ''p9'' ''u1'' db_example)))
       = snd (approveProfile 1000 ''p9'' ''u1'' db_example)
   \<and> user_findUnique ''u2'' db_example = Some nina
   \<and> profile_findUnique ''u2'' db_example = Some nina_profile \<and> isComplete nina_profile
   \<and> Profile_table (snd (approveProfile 2000 ''p9'' ''u2'' db_example)) = Profile_table db_example
   \<and> map approvedAt (User_table (snd (approveProfile 2000 ''p9'' ''u2'' db_example)))
       = [None, Some 2000]"
proof -
  have u: "user_findUnique ''u1'' db_example = Some pat"
    and v: "user_findUnique ''u2'' db_example = Some nina"
    by (simp_all add: model_defs example_defs)
  have f: "''p9'' \<notin> id_Profile ` set (Profile_table db_example)"
    by (simp add: example_defs)
  have p: "profile_findUnique ''u2'' db_example = Some nina_profile" "isComplete nina_profile"
    by (simp_all add: model_defs example_defs)
  have t: "map approvedAt
             (map (\<lambda>v. if id_User v = ''u2'' then v\<lparr>approvedAt := Some 2000\<rparr> else v)
                (User_table db_example)) = [None, Some 2000]"
    by (simp add: example_defs)
  from approveProfile_twice [OF u f, of 1000 2000 "''p8''"]
       approveProfile_twice [OF u f, of 1000 1000 "''p8''"]
       approveProfile_twice [OF v f, of 2000 2000 "''p8''"] u v f p t
  show ?thesis by simp
qed

text \<open>
  Claim C3 says that all four gate operations fail with \<open>NotFound\<close> for an identifier
  that references no user. On the example store and the unknown identifier \<open>u0\<close>,
  \<open>approveProfile\<close>, \<open>setBackgroundStatus\<close> and \<open>canAccessServices\<close> throw
  \<open>NotFoundException\<close>, while \<open>activateAfterPayment\<close>, which has no lookup of its own,
  lets the client's error \<open>P2025\<close> through. No call changes the store.
\<close>

theorem missing_user_errors:
  "approveProfile 1000 ''p9'' ''u0'' db_example
     = (Inl (NotFoundException ''User not found''), db_example)
   \<and> setBackgroundStatus ''u0'' PASSED db_example
     = (Inl (NotFoundException ''User not found''), db_example)
   \<and> canAccessServices ''u0'' db_example
     = (Inl (NotFoundException ''User not found''), db_example)
   \<and> activateAfterPayment ''u0'' db_example
     = (Inl (PrismaClientKnownRequestError ''P2025''), db_example)"
  by (simp add: service_defs model_defs example_defs)

text \<open>
  Claim C4. For an existing user, whatever its account status, \<open>activateAfterPayment\<close>
  returns the user record with \<open>accountStatus\<close> set to \<open>ACTIVE\<close> and nothing else
  changed, and that record is what the store then holds for the user. The witness
  activates a suspended user.
\<close>

theorem activateAfterPayment_sets_ACTIVE:
  "user_findUnique uid db = Some u \<Longrightarrow>
     (\<exists>u' db'. activateAfterPayment uid db = (Inr u', db')
        \<and> u' = u\<lparr>accountStatus := ACTIVE\<rparr>
        \<and> accountStatus u' = ACTIVE
        \<and> user_findUnique uid db' = Some u')"
  by (simp add: activateAfterPayment_def user_update_def user_find_update_same)

theorem activateAfterPayment_sets_ACTIVE_witness:
  "user_findUnique ''u2'' (snd (suspend ''u2'' db_example)) = Some (nina\<lparr>accountStatus := SUSPENDED\<rparr>)
   \<and> (\<exists>u' db'. activateAfterPayment ''u2'' (snd (suspend ''u2'' db_example)) = (Inr u', db')
        \<and> u' = nina\<lparr>accountStatus := SUSPENDED, accountStatus := ACTIVE\<rparr>
        \<and> accountStatus u' = ACTIVE
        \<and> user_findUnique ''u2'' db' = Some u')"
proof -
  have h: "user_findUnique ''u2'' (snd (suspend ''u2'' db_example))
             = Some (nina\<lparr>accountStatus := SUSPENDED\<rparr>)"
    by (simp add: suspend_def model_defs example_defs)
  from activateAfterPayment_sets_ACTIVE [OF h] h show ?thesis by simp
qed

text \<open>
  Claim C5. A user with status \<open>PENDING_PAYMENT\<close>, background status \<open>PENDING\<close>, no
  approval and no profile cannot access the services; after \<open>activateAfterPayment\<close>,
  \<open>setBackgroundStatus\<close> with \<open>PASSED\<close> and \<open>approveProfile\<close>, each of which succeeds,
  \<open>canAccessServices\<close> returns true.
\<close>

theorem signup_scenario:
  assumes u: "user_findUnique uid db = Some u"
    and fields: "accountStatus u = PENDING_PAYMENT" "backgroundStatus u = PENDING"
                "approvedAt u = None"
    and noprofile: "profile_findUnique uid db = None"
    and fresh: "uuid \<notin> id_Profile ` set (Profile_table db)"
  shows "canAccessServices uid db = (Inr False, db)
     \<and> (\<exists>u1 db1 u2 db2 u3 db3.
          activateAfterPayment uid db = (Inr u1, db1)
          \<and> setBackgroundStatus uid PASSED db1 = (Inr u2, db2)
          \<and> approveProfile now uuid uid db2 = (Inr (Some u3), db3)
          \<and> canAccessServices uid db3 = (Inr True, db3))"
proof -
  let ?f1 = "\<lambda>v::User. v\<lparr>accountStatus := ACTIVE\<rparr>"
  let ?f2 = "\<lambda>v::User. v\<lparr>backgroundStatus := PASSED\<rparr>"
  let ?db1 = "update_User_where uid ?f1 db"
  let ?db2 = "update_User_where uid ?f2 ?db1"
  have before: "canAccessServices uid db = (Inr False, db)"
    using canAccessServices_Some [OF u] fields by simp
  have s1: "activateAfterPayment uid db = (Inr (?f1 u), ?db1)"
    by (rule activateAfterPayment_Some [OF u])
  have u1: "user_findUnique uid ?db1 = Some (?f1 u)"
    using u by (simp add: user_find_update_same)
  have s2: "setBackgroundStatus uid PASSED ?db1 = (Inr (?f2 (?f1 u)), ?db2)"
    by (rule setBackgroundStatus_Some [OF u1])
  have u2: "user_findUnique uid ?db2 = Some (?f2 (?f1 u))"
    using u1 by (simp add: user_find_update_same)
  have p2: "profile_findUnique uid ?db2 = None"
    using noprofile by simp
  have f2: "profile_findUnique uid ?db2 = None \<Longrightarrow> uuid \<notin> id_Profile ` set (Profile_table ?db2)"
    using fresh by simp
  obtain db3 where s3: "approveProfile now uuid uid ?db2 =
        (Inr (Some ((?f2 (?f1 u))\<lparr>approvedAt := Some now\<rparr>)), db3)"
    and db3: "db3 = update_User_where uid (\<lambda>u. u\<lparr>approvedAt := Some now\<rparr>)
        (?db2\<lparr>Profile_table := Profile_table ?db2 @
                     [\<lparr>id_Profile = uuid, bio = None, location = None, experience = None,
                       userId = uid, isComplete = True\<rparr>]\<rparr>)"
    using approveProfile_Some [OF u2 f2, of now] p2 by simp
  have u3: "user_findUnique uid db3 = Some ((?f2 (?f1 u))\<lparr>approvedAt := Some now\<rparr>)"
    unfolding db3 using u2 by (simp add: user_find_update_same)
  have p3: "profile_findUnique uid db3 = Some \<lparr>id_Profile = uuid, bio = None, location = None, experience = None,
                       userId = uid, isComplete = True\<rparr>"
    unfolding db3 using noprofile by (simp add: profile_findUnique_def find_snoc)
  have after: "canAccessServices uid db3 = (Inr True, db3)"
    using canAccessServices_Some [OF u3] p3 by simp
  show ?thesis using before s1 s2 s3 after by blast
qed

theorem signup_scenario_witness:
  "user_findUnique ''u1'' db_example = Some pat
   \<and> accountStatus pat = PENDING_PAYMENT \<and> backgroundStatus pat = PENDING
   \<and> approvedAt pat = None
   \<and> profile_findUnique ''u1'' db_example = None
   \<and> ''p9'' \<notin> id_Profile ` set (Profile_table db_example)
   \<and> canAccessServices ''u1'' db_example = (Inr False, db_example)
   \<and> (\<exists>u1 db1 u2 db2 u3 db3.
          activateAfterPayment ''u1'' db_example = (Inr u1, db1)
          \<and> setBackgroundStatus ''u1'' PASSED db1 = (Inr u2, db2)
          \<and> approveProfile 1000 ''p9'' ''u1'' db2 = (Inr (Some u3), db3)
          \<and> canAccessServices ''u1'' db3 = (Inr True, db3))"
proof -
  have u: "user_findUnique ''u1'' db_example = Some pat"
    by (simp add: model_defs example_defs)
  have a: "accountStatus pat = PENDING_PAYMENT" "backgroundStatus pat = PENDING"
          "approvedAt pat = None"
    by (simp_all add: pat_def)
  have n: "profile_findUnique ''u1'' db_example = None"
    by (simp add: model_defs example_defs)
  have f: "''p9'' \<notin> id_Profile ` set (Profile_table db_example)"
    by (simp add: example_defs)
  from signup_scenario [OF u a n f, of 1000] u a n f show ?thesis by simp
qed

text \<open>
  Claim C6. For an existing user, \<open>approveProfile\<close> succeeds and returns the user with
  \<open>approvedAt\<close> set to the current time; afterwards the user has a complete profile: a
  new one with \<open>isComplete\<close> true when there was none, the old one marked complete
  otherwise.
\<close>

theorem approveProfile_effect:
  assumes "user_findUnique uid db = Some u"
    and "profile_findUnique uid db = None \<Longrightarrow> uuid \<notin> id_Profile ` set (Profile_table db)"
  shows "\<exists>db'. approveProfile now uuid uid db = (Inr (Some (u\<lparr>approvedAt := Some now\<rparr>)), db')
     \<and> user_findUnique uid db' = Some (u\<lparr>approvedAt := Some now\<rparr>)
     \<and> approvedAt (u\<lparr>approvedAt := Some now\<rparr>) = Some now
     \<and> (\<exists>p. profile_findUnique uid db' = Some p \<and> isComplete p)
     \<and> (profile_findUnique uid db = None \<longrightarrow>
          profile_findUnique uid db' =
            Some \<lparr>id_Profile = uuid, bio = None, location = None, experience = None,
                  userId = uid, isComplete = True\<rparr>)
     \<and> (\<forall>p. profile_findUnique uid db = Some p \<longrightarrow>
          profile_findUnique uid db' = Some (p\<lparr>isComplete := True\<rparr>))"
proof (cases "profile_findUnique uid db")
  case None
  show ?thesis
    using approveProfile_Some [OF assms, of now] assms(1) None
    by (simp add: user_find_update_same profile_find_snoc)
next
  case (Some p)
  show ?thesis
    using approveProfile_Some [OF assms, of now] assms(1) Some
    by (simp add: user_find_update_same profile_find_update_same)
qed

theorem approveProfile_effect_witness:
  "user_findUnique ''u1'' db_example = Some pat
   \<and> profile_findUnique ''u1'' db_example = None
   \<and> ''p9'' \<notin> id_Profile ` set (Profile_table db_example)
   \<and> (\<exists>db'. approveProfile 1000 ''p9'' ''u1'' db_example
                = (Inr (Some (pat\<lparr>approvedAt := Some 1000\<rparr>)), db')
          \<and> user_findUnique ''u1'' db' = Some (pat\<lparr>approvedAt := Some 1000\<rparr>)
          \<and> profile_findUnique ''u1'' db' =
               Some \<lparr>id_Profile = ''p9'', bio = None, location = None, experience = None,
                     userId = ''u1'', isComplete = True\<rparr>)"
proof -
  have u: "user_findUnique ''u1'' db_example = Some pat"
    by (simp add: model_defs example_defs)
  have n: "profile_findUnique ''u1'' db_example = None"
    by (simp add: model_defs example_defs)
  have f: "''p9'' \<notin> id_Profile ` set (Profile_table db_example)"
    by (simp add: example_defs)
  from approveProfile_effect [OF u f, of 1000] u n f show ?thesis by auto
qed

text \<open>
  Claim C7. For an existing user and any status, \<open>setBackgroundStatus\<close> returns the
  user with \<open>backgroundStatus\<close> overwritten by the given value; the account status
  and the approval timestamp of every user, and the whole \<open>Profile\<close> table, are as
  before.
\<close>

theorem setBackgroundStatus_frame:
  "user_findUnique uid db = Some u \<Longrightarrow>
     (\<exists>db'. setBackgroundStatus uid status db = (Inr (u\<lparr>backgroundStatus := status\<rparr>), db')
        \<and> user_findUnique uid db' = Some (u\<lparr>backgroundStatus := status\<rparr>)
        \<and> backgroundStatus (u\<lparr>backgroundStatus := status\<rparr>) = status
        \<and> accountStatus (u\<lparr>backgroundStatus := status\<rparr>) = accountStatus u
        \<and> approvedAt (u\<lparr>backgroundStatus := status\<rparr>) = approvedAt u
        \<and> map accountStatus (User_table db') = map accountStatus (User_table db)
        \<and> map approvedAt (User_table db') = map approvedAt (User_table db)
        \<and> Profile_table db' = Profile_table db)"
  by (simp add: setBackgroundStatus_def try_rethrow_def Let_def user_find_update_same)
     (simp add: update_User_where_def)

theorem setBackgroundStatus_frame_witness:
  "user_findUnique ''u2'' db_example = Some nina
   \<and> (\<exists>db'. setBackgroundStatus ''u2'' FAILED db_example
                = (Inr (nina\<lparr>backgroundStatus := FAILED\<rparr>), db')
          \<and> user_findUnique ''u2'' db' = Some (nina\<lparr>backgroundStatus := FAILED\<rparr>)
          \<and> map accountStatus (User_table db') = [PENDING_PAYMENT, ACTIVE]
          \<and> map approvedAt (User_table db') = [None, Some 1000]
          \<and> Profile_table db' = [nina_profile])"
proof -
  have u: "user_findUnique ''u2'' db_example = Some nina"
    by (simp add: model_defs example_defs)
  from setBackgroundStatus_frame [OF u, of FAILED] u show ?thesis
    by (simp add: example_defs)
qed

text \<open>
  Claim C8, as stated, fails for the profiles that \<open>updateUser\<close> updates: the update
  does not write \<open>isComplete\<close>, so an approved profile is still complete after it.
\<close>

theorem updateUser_complete_counterexample:
  "map_option isComplete
     (profile_findUnique ''u2'' (snd (updateUser ''p9'' ''u2'' bio_update db_example)))
   = Some True"
  by (simp add: service_defs model_defs example_defs bio_update_def)

text \<open>
  Claim C8, amended. No operation other than \<open>approveProfile\<close> changes \<open>isComplete\<close>:
  after any other operation, a profile that existed has the \<open>isComplete\<close> it had (so a
  profile updated through \<open>updateUser\<close> keeps its flag), and a profile that is new
  (created by \<open>createParent\<close>, \<open>createNanny\<close> or \<open>updateUser\<close>) has \<open>isComplete\<close>
  false.
\<close>

theorem isComplete_only_by_approveProfile:
  "\<not> is_approveProfile op \<Longrightarrow>
     (\<forall>p. profile_findUnique uid db = Some p \<longrightarrow>
          (\<exists>p'. profile_findUnique uid (run op db) = Some p' \<and> isComplete p' = isComplete p))
     \<and> (profile_findUnique uid db = None \<longrightarrow>
          (\<forall>p'. profile_findUnique uid (run op db) = Some p' \<longrightarrow> \<not> isComplete p'))"
  using run_keeps(2) [of op db] unfolding keeps_isComplete_def by blast

theorem isComplete_only_by_approveProfile_witness:
  "\<not> is_approveProfile (UpdateUser ''p9'' ''u2'' bio_update)
   \<and> profile_findUnique ''u2'' db_example = Some nina_profile
   \<and> (\<exists>p'. profile_findUnique ''u2'' (run (UpdateUser ''p9'' ''u2'' bio_update) db_example) = Some p'
          \<and> isComplete p' = isComplete nina_profile)
   \<and> \<not> is_approveProfile (CreateParent ''u3'' ''p3'' sam_input)
   \<and> profile_findUnique ''u3'' db_example = None
   \<and> (\<exists>p'. profile_findUnique ''u3'' (run (CreateParent ''u3'' ''p3'' sam_input) db_example) = Some p'
          \<and> \<not> isComplete p')"
proof -
  have a: "\<not> is_approveProfile (UpdateUser ''p9'' ''u2'' bio_update)"
    and b: "\<not> is_approveProfile (CreateParent ''u3'' ''p3'' sam_input)" by simp_all
  have p: "profile_findUnique ''u2'' db_example = Some nina_profile"
    and n: "profile_findUnique ''u3'' db_example = None"
    by (simp_all add: model_defs example_defs)
  have c: "\<exists>p'. profile_findUnique ''u3'' (run (CreateParent ''u3'' ''p3'' sam_input) db_example) = Some p'"
    by (simp add: service_defs model_defs example_defs sam_input_def)
  from isComplete_only_by_approveProfile [OF a, of "''u2''" db_example]
       isComplete_only_by_approveProfile [OF b, of "''u3''" db_example] a b p n c
  show ?thesis by auto
qed

text \<open>
  Claim C9. After any operation, a user whose \<open>approvedAt\<close> was not null still has a
  non-null \<open>approvedAt\<close>; and only \<open>approveProfile\<close> sets it: after any other
  operation every user that existed has the \<open>approvedAt\<close> it had, and a new user has
  none.
\<close>

theorem approvedAt_never_cleared:
  "(\<forall>u. user_findUnique uid db = Some u \<and> approvedAt u \<noteq> None \<longrightarrow>
        (\<exists>u'. user_findUnique uid (run op db) = Some u' \<and> approvedAt u' \<noteq> None))
   \<and> (\<not> is_approveProfile op \<longrightarrow>
        (\<forall>u. user_findUnique uid db = Some u \<longrightarrow>
           (\<exists>u'. user_findUnique uid (run op db) = Some u' \<and> approvedAt u' = approvedAt u))
        \<and> (user_findUnique uid db = None \<longrightarrow>
           (\<forall>u'. user_findUnique uid (run op db) = Some u' \<longrightarrow> approvedAt u' = None)))"
proof (cases "is_approveProfile op")
  case True
  then obtain now uuid k where "op = ApproveProfile now uuid k" by (cases op) simp_all
  then show ?thesis using approveProfile_approvedAt [of uid db _ now uuid k] by auto
next
  case False
  from run_keeps(1) [OF False, of db] have
    k: "\<And>u. user_findUnique uid db = Some u \<Longrightarrow>
           (\<exists>u'. user_findUnique uid (run op db) = Some u' \<and> approvedAt u' = approvedAt u)"
    and n: "user_findUnique uid db = None \<Longrightarrow>
           (\<forall>u'. user_findUnique uid (run op db) = Some u' \<longrightarrow> approvedAt u' = None)"
    unfolding keeps_approvedAt_def by blast+
  show ?thesis using k n by (metis)
qed

theorem approvedAt_never_cleared_witness:
  "user_findUnique ''u2'' db_example = Some nina \<and> approvedAt nina \<noteq> None
   \<and> \<not> is_approveProfile (Suspend ''u2'')
   \<and> (\<exists>u'. user_findUnique ''u2'' (run (Suspend ''u2'') db_example) = Some u'
          \<and> approvedAt u' = approvedAt nina)
   \<and> (\<exists>u'. user_findUnique ''u2'' (run (ApproveProfile 2000 ''p9'' ''u2'') db_example) = Some u'
          \<and> approvedAt u' \<noteq> None)
   \<and> \<not> is_approveProfile (CreateParent ''u3'' ''p3'' sam_input)
   \<and> user_findUnique ''u3'' db_example = None
   \<and> (\<exists>u'. user_findUnique ''u3'' (run (CreateParent ''u3'' ''p3'' sam_input) db_example) = Some u'
          \<and> approvedAt u' = None)"
proof -
  have a: "\<not> is_approveProfile (Suspend ''u2'')"
    and b: "\<not> is_approveProfile (CreateParent ''u3'' ''p3'' sam_input)" by simp_all
  have u: "user_findUnique ''u2'' db_example = Some nina"
    and n: "user_findUnique ''u3'' db_example = None"
    by (simp_all add: model_defs example_defs)
  have v: "approvedAt nina \<noteq> None" by (simp add: nina_def)
  have c: "\<exists>u'. user_findUnique ''u3'' (run (CreateParent ''u3'' ''p3'' sam_input) db_example) = Some u'"
    by (simp add: service_defs model_defs example_defs sam_input_def)
  from approvedAt_never_cleared [of "''u2''" db_example "Suspend ''u2''"]
       approvedAt_never_cleared [of "''u2''" db_example "ApproveProfile 2000 ''p9'' ''u2''"]
       approvedAt_never_cleared [of "''u3''" db_example "CreateParent ''u3'' ''p3'' sam_input"]
       a b u n v c
  show ?thesis by auto
qed

text \<open>
  Claim C10. For an existing user, \<open>suspend\<close> returns the user with \<open>accountStatus\<close>
  set to \<open>SUSPENDED\<close> and nothing else changed; the other users and the \<open>Profile\<close>
  table are as before, and \<open>canAccessServices\<close> then returns false for that user.
\<close>

theorem suspend_frame:
  "user_findUnique uid db = Some u \<Longrightarrow>
     (\<exists>db'. suspend uid db = (Inr (u\<lparr>accountStatus := SUSPENDED\<rparr>), db')
        \<and> user_findUnique uid db' = Some (u\<lparr>accountStatus := SUSPENDED\<rparr>)
        \<and> User_table db' =
            map (\<lambda>v. if id_User v = uid then v\<lparr>accountStatus := SUSPENDED\<rparr> else v) (User_table db)
        \<and> Profile_table db' = Profile_table db
        \<and> canAccessServices uid db' = (Inr False, db'))"
proof -
  assume h: "user_findUnique uid db = Some u"
  let ?f = "\<lambda>v::User. v\<lparr>accountStatus := SUSPENDED\<rparr>"
  let ?db = "update_User_where uid ?f db"
  have r: "suspend uid db = (Inr (?f u), ?db)"
    using h by (simp add: suspend_def try_rethrow_def user_update_def)
  have f: "user_findUnique uid ?db = Some (?f u)"
    using h by (simp add: user_find_update_same)
  have g: "canAccessServices uid ?db = (Inr False, ?db)"
    using canAccessServices_Some [OF f] by simp
  show ?thesis using r f g by (simp add: update_User_where_def)
qed

theorem suspend_frame_witness:
  "user_findUnique ''u2'' db_example = Some nina
   \<and> canAccessServices ''u2'' db_example = (Inr True, db_example)
   \<and> (\<exists>db'. suspend ''u2'' db_example = (Inr (nina\<lparr>accountStatus := SUSPENDED\<rparr>), db')
          \<and> user_findUnique ''u2'' db' = Some (nina\<lparr>accountStatus := SUSPENDED\<rparr>)
          \<and> Profile_table db' = [nina_profile]
          \<and> canAccessServices ''u2'' db' = (Inr False, db'))"
proof -
  have u: "user_findUnique ''u2'' db_example = Some nina"
    by (simp add: model_defs example_defs)
  have c: "canAccessServices ''u2'' db_example = (Inr True, db_example)"
    by (simp add: service_defs model_defs example_defs)
  have p: "Profile_table db_example = [nina_profile]"
    by (simp add: db_example_def)
  from suspend_frame [OF u] u c p show ?thesis by auto
qed

end
